theory Spec2Isabelle
  imports Complex_Main "HOL-Library.Word"
begin

section \<open>Enumerations of k4abttypes.h\<close>

text \<open>
  A C enumeration is a list of enumerators in declaration order, each with an optional
  explicit initialiser. An enumerator with an initialiser has that value; one without has
  the value of its predecessor plus one, and the first one has 0 when it has no initialiser.
  \<open>enum_values\<close> computes the values of a declaration by this rule; its first argument is
  the value the next enumerator gets when it has no initialiser.
\<close>

fun enum_values :: "int \<Rightarrow> ('a \<times> int option) list \<Rightarrow> ('a \<times> int) list" where
  "enum_values nxt [] = []"
| "enum_values nxt ((e, None) # es) = (e, nxt) # enum_values (nxt + 1) es"
| "enum_values nxt ((e, Some v) # es) = (e, v) # enum_values (v + 1) es"

text \<open>The enumerators of \<open>k4abt_joint_id_t\<close> (k4abttypes.h, lines 57 to 86).\<close>

datatype k4abt_joint_id_t =
    K4ABT_JOINT_PELVIS
  | K4ABT_JOINT_SPINE_NAVAL
  | K4ABT_JOINT_SPINE_CHEST
  | K4ABT_JOINT_NECK
  | K4ABT_JOINT_CLAVICLE_LEFT
  | K4ABT_JOINT_SHOULDER_LEFT
  | K4ABT_JOINT_ELBOW_LEFT
  | K4ABT_JOINT_WRIST_LEFT
  | K4ABT_JOINT_CLAVICLE_RIGHT
  | K4ABT_JOINT_SHOULDER_RIGHT
  | K4ABT_JOINT_ELBOW_RIGHT
  | K4ABT_JOINT_WRIST_RIGHT
  | K4ABT_JOINT_HIP_LEFT
  | K4ABT_JOINT_KNEE_LEFT
  | K4ABT_JOINT_ANKLE_LEFT
  | K4ABT_JOINT_FOOT_LEFT
  | K4ABT_JOINT_HIP_RIGHT
  | K4ABT_JOINT_KNEE_RIGHT
  | K4ABT_JOINT_ANKLE_RIGHT
  | K4ABT_JOINT_FOOT_RIGHT
  | K4ABT_JOINT_HEAD
  | K4ABT_JOINT_NOSE
  | K4ABT_JOINT_EYE_LEFT
  | K4ABT_JOINT_EAR_LEFT
  | K4ABT_JOINT_EYE_RIGHT
  | K4ABT_JOINT_EAR_RIGHT
  | K4ABT_JOINT_COUNT

text \<open>The declaration as written: only the first enumerator has an initialiser.\<close>

definition k4abt_joint_id_t_decl :: "(k4abt_joint_id_t \<times> int option) list" where
  "k4abt_joint_id_t_decl =
    [(K4ABT_JOINT_PELVIS, Some 0),
     (K4ABT_JOINT_SPINE_NAVAL, None),
     (K4ABT_JOINT_SPINE_CHEST, None),
     (K4ABT_JOINT_NECK, None),
     (K4ABT_JOINT_CLAVICLE_LEFT, None),
     (K4ABT_JOINT_SHOULDER_LEFT, None),
     (K4ABT_JOINT_ELBOW_LEFT, None),
     (K4ABT_JOINT_WRIST_LEFT, None),
     (K4ABT_JOINT_CLAVICLE_RIGHT, None),
     (K4ABT_JOINT_SHOULDER_RIGHT, None),
     (K4ABT_JOINT_ELBOW_RIGHT, None),
     (K4ABT_JOINT_WRIST_RIGHT, None),
     (K4ABT_JOINT_HIP_LEFT, None),
     (K4ABT_JOINT_KNEE_LEFT, None),
     (K4ABT_JOINT_ANKLE_LEFT, None),
     (K4ABT_JOINT_FOOT_LEFT, None),
     (K4ABT_JOINT_HIP_RIGHT, None),
     (K4ABT_JOINT_KNEE_RIGHT, None),
     (K4ABT_JOINT_ANKLE_RIGHT, None),
     (K4ABT_JOINT_FOOT_RIGHT, None),
     (K4ABT_JOINT_HEAD, None),
     (K4ABT_JOINT_NOSE, None),
     (K4ABT_JOINT_EYE_LEFT, None),
     (K4ABT_JOINT_EAR_LEFT, None),
     (K4ABT_JOINT_EYE_RIGHT, None),
     (K4ABT_JOINT_EAR_RIGHT, None),
     (K4ABT_JOINT_COUNT, None)]"

text \<open>The integer value of an enumerator of \<open>k4abt_joint_id_t\<close>.\<close>

definition k4abt_joint_id_t_value :: "k4abt_joint_id_t \<Rightarrow> int option" where
  "k4abt_joint_id_t_value j = map_of (enum_values 0 k4abt_joint_id_t_decl) j"

text \<open>The enumerators of \<open>k4abt_sensor_orientation_t\<close> (k4abttypes.h, lines 97 to 103).\<close>

datatype k4abt_sensor_orientation_t =
    K4ABT_SENSOR_ORIENTATION_DEFAULT
  | K4ABT_SENSOR_ORIENTATION_CLOCKWISE90
  | K4ABT_SENSOR_ORIENTATION_COUNTERCLOCKWISE90
  | K4ABT_SENSOR_ORIENTATION_FLIP180

definition k4abt_sensor_orientation_t_decl ::
    "(k4abt_sensor_orientation_t \<times> int option) list" where
  "k4abt_sensor_orientation_t_decl =
    [(K4ABT_SENSOR_ORIENTATION_DEFAULT, Some 0),
     (K4ABT_SENSOR_ORIENTATION_CLOCKWISE90, None),
     (K4ABT_SENSOR_ORIENTATION_COUNTERCLOCKWISE90, None),
     (K4ABT_SENSOR_ORIENTATION_FLIP180, None)]"

definition k4abt_sensor_orientation_t_value :: "k4abt_sensor_orientation_t \<Rightarrow> int option" where
  "k4abt_sensor_orientation_t_value s = map_of (enum_values 0 k4abt_sensor_orientation_t_decl) s"

section \<open>Tracker configuration\<close>

text \<open>\<open>struct _k4abt_tracker_configuration_t\<close> has the one member \<open>sensor_orientation\<close>.\<close>

record k4abt_tracker_configuration_t =
  sensor_orientation :: k4abt_sensor_orientation_t

text \<open>
  \<open>static const k4abt_tracker_configuration_t K4ABT_TRACKER_CONFIG_DEFAULT =
  { K4ABT_SENSOR_ORIENTATION_DEFAULT }\<close>: the brace initialiser gives its one value to the
  first member.
\<close>

definition K4ABT_TRACKER_CONFIG_DEFAULT :: k4abt_tracker_configuration_t where
  "K4ABT_TRACKER_CONFIG_DEFAULT = \<lparr>sensor_orientation = K4ABT_SENSOR_ORIENTATION_DEFAULT\<rparr>"

section \<open>Object-like macros\<close>

text \<open>
  An object-like macro stands for its replacement text. The macros of k4abttypes.h and
  k4abtversion.h are kept as that text; the functions below give a constant its value by
  the grammar of C constants.
\<close>

text \<open>The value of a digit character: decimal digits, then \<open>a\<close> to \<open>f\<close> and \<open>A\<close> to \<open>F\<close>.\<close>

definition digit_value :: "char \<Rightarrow> nat option" where
  "digit_value c =
     (let n = (of_char c :: nat) in
      if 48 \<le> n \<and> n \<le> 57 then Some (n - 48)
      else if 97 \<le> n \<and> n \<le> 102 then Some (n - 87)
      else if 65 \<le> n \<and> n \<le> 70 then Some (n - 55)
      else None)"

text \<open>A digit sequence in a base, most significant digit first; \<open>None\<close> at a character
  that is not a digit of the base.\<close>

fun digits_value :: "nat \<Rightarrow> nat \<Rightarrow> string \<Rightarrow> nat option" where
  "digits_value base acc [] = Some acc"
| "digits_value base acc (c # cs) =
     (case digit_value c of
        None \<Rightarrow> None
      | Some d \<Rightarrow> if d < base then digits_value base (acc * base + d) cs else None)"

text \<open>
  An integer constant without suffix: hexadecimal after \<open>0x\<close> or \<open>0X\<close>, octal after a
  leading \<open>0\<close>, decimal otherwise.
\<close>

definition integer_constant :: "string \<Rightarrow> nat option" where
  "integer_constant s =
     (if take 2 s = ''0x'' \<or> take 2 s = ''0X'' then
        (if drop 2 s = [] then None else digits_value 16 0 (drop 2 s))
      else if take 1 s = ''0'' then digits_value 8 0 (drop 1 s)
      else if s = [] then None
      else digits_value 10 0 s)"

text \<open>
  A decimal floating constant without exponent: digits, a point, digits, and an optional
  suffix \<open>f\<close> or \<open>F\<close> (which makes its type \<open>float\<close>). The result is the number the
  text denotes.
\<close>

definition floating_constant :: "string \<Rightarrow> rat option" where
  "floating_constant s =
     (let body = (if s = [] then s
                  else if last s = CHR ''f'' \<or> last s = CHR ''F'' then butlast s
                  else s);
          whole = takeWhile (\<lambda>c. c \<noteq> CHR ''.'') body;
          rest = dropWhile (\<lambda>c. c \<noteq> CHR ''.'') body
      in case rest of
           [] \<Rightarrow> None
         | _ # fraction \<Rightarrow>
             (if whole = [] \<and> fraction = [] then None
              else case (digits_value 10 0 whole, digits_value 10 0 fraction) of
                     (Some i, Some f) \<Rightarrow> Some (of_nat i + of_nat f / 10 ^ length fraction)
                   | _ \<Rightarrow> None))"

text \<open>
  The number held by an IEEE 754 binary32 value with the given sign bit, biased exponent
  field (8 bits) and fraction field (23 bits); \<open>None\<close> for the infinities and NaNs and
  for fields out of range.
\<close>

definition binary32_value :: "bool \<Rightarrow> nat \<Rightarrow> nat \<Rightarrow> rat option" where
  "binary32_value sign e f =
     (if 255 \<le> e then None
      else if 2 ^ 23 \<le> f then None
      else let m = (if e = 0 then of_nat f / 2 ^ 23 else 1 + of_nat f / 2 ^ 23);
               p = (if e = 0 then 1 / 2 ^ 126
                    else if 127 \<le> e then 2 ^ (e - 127)
                    else 1 / 2 ^ (127 - e))
           in Some ((if sign then - 1 else 1) * m * p))"

text \<open>
  A string literal without escape sequences: the characters between the two double
  quotes (character 0x22); \<open>None\<close> when the quotes are missing or a backslash (character 0x5C)
  or a further double quote occurs inside.
\<close>

definition string_literal :: "string \<Rightarrow> string option" where
  "string_literal s =
     (if length s < 2 then None
      else if hd s = CHR 0x22 \<and> last s = CHR 0x22 then
        (let body = butlast (tl s) in
         if CHR 0x22 \<in> set body \<or> CHR 0x5C \<in> set body then None
         else Some body)
      else None)"

text \<open>k4abttypes.h, lines 186, 190 and 194.\<close>

definition K4ABT_BODY_INDEX_MAP_BACKGROUND :: string where
  "K4ABT_BODY_INDEX_MAP_BACKGROUND = ''255''"

definition K4ABT_INVALID_BODY_ID :: string where
  "K4ABT_INVALID_BODY_ID = ''0xFFFFFFFF''"

definition K4ABT_DEFAULT_TRACKER_SMOOTHING_FACTOR :: string where
  "K4ABT_DEFAULT_TRACKER_SMOOTHING_FACTOR = ''0.5f''"

text \<open>k4abtversion.h, lines 7 to 13.\<close>

definition K4ABT_VERSION_MAJOR :: string where
  "K4ABT_VERSION_MAJOR = ''0''"

definition K4ABT_VERSION_MINOR :: string where
  "K4ABT_VERSION_MINOR = ''9''"

definition K4ABT_VERSION_PATCH :: string where
  "K4ABT_VERSION_PATCH = ''2''"

definition K4ABT_VERSION_PRERELEASE :: string where
  "K4ABT_VERSION_PRERELEASE = [CHR 0x22, CHR 0x22]"

definition K4ABT_VERSION_BUILD_METADATA :: string where
  "K4ABT_VERSION_BUILD_METADATA = [CHR 0x22, CHR 0x22]"

definition K4ABT_VERSION_STR :: string where
  "K4ABT_VERSION_STR = [CHR 0x22] @ ''0.9.2'' @ [CHR 0x22]"

subsection \<open>Rendering a version\<close>

text \<open>
  The headers define no function that builds a version string. The renderings below say
  what it means for \<open>K4ABT_VERSION_STR\<close> to agree with the version components; they
  are compared with the macro, not taken from it.
\<close>

text \<open>The decimal numeral of a natural number, without leading zeros.\<close>

fun decimal :: "nat \<Rightarrow> string" where
  "decimal n =
     (if n < 10 then [''0123456789'' ! n]
      else decimal (n div 10) @ [''0123456789'' ! (n mod 10)])"

text \<open>The dot-joined rendering \<open>major.minor.patch\<close> of three version numbers.\<close>

definition version_core :: "nat \<Rightarrow> nat \<Rightarrow> nat \<Rightarrow> string" where
  "version_core major minor patch = decimal major @ ''.'' @ decimal minor @ ''.'' @ decimal patch"

text \<open>
  The full version in the semantic-versioning form: the core, then \<open>-\<close> and the
  prerelease when there is one, then \<open>+\<close> and the build metadata when there is some.
\<close>

definition version_full :: "nat \<Rightarrow> nat \<Rightarrow> nat \<Rightarrow> string \<Rightarrow> string \<Rightarrow> string" where
  "version_full major minor patch prerelease build =
     version_core major minor patch
       @ (if prerelease = [] then [] else ''-'' @ prerelease)
       @ (if build = [] then [] else ''+'' @ build)"

section \<open>Layout of the declared types\<close>

text \<open>
  The types a declaration of k4abttypes.h is built from: \<open>float\<close>, \<open>uint32_t\<close>, arrays,
  and structures and unions with their members in declaration order.
\<close>

datatype ctype =
    CFloat
  | CUInt32
  | CArray ctype nat
  | CStruct "(string \<times> ctype) list"
  | CUnion "(string \<times> ctype) list"

text \<open>The next multiple of the alignment \<open>a\<close> at or after \<open>n\<close>.\<close>

definition align_up :: "nat \<Rightarrow> nat \<Rightarrow> nat" where
  "align_up n a = ((n + a - 1) div a) * a"

text \<open>
  Alignment and size in bytes. \<open>float\<close> and \<open>uint32_t\<close> take four bytes aligned to four.
  An array has its elements one after the other. A structure places each member at the
  next offset aligned for it, after the member before, and is padded at the end to its
  own alignment; a union is as large as its largest member, padded likewise.
\<close>

fun alignof :: "ctype \<Rightarrow> nat" where
  "alignof CFloat = 4"
| "alignof CUInt32 = 4"
| "alignof (CArray t n) = alignof t"
| "alignof (CStruct ms) = fold max (map (\<lambda>m. alignof (snd m)) ms) 1"
| "alignof (CUnion ms) = fold max (map (\<lambda>m. alignof (snd m)) ms) 1"

fun sizeof :: "ctype \<Rightarrow> nat" where
  "sizeof CFloat = 4"
| "sizeof CUInt32 = 4"
| "sizeof (CArray t n) = n * sizeof t"
| "sizeof (CStruct ms) =
     align_up (fold (\<lambda>m e. align_up e (alignof (snd m)) + sizeof (snd m)) ms 0)
       (alignof (CStruct ms))"
| "sizeof (CUnion ms) =
     align_up (fold max (map (\<lambda>m. sizeof (snd m)) ms) 0) (alignof (CUnion ms))"

text \<open>
  The offset and type of the member \<open>name\<close> of a structure whose remaining members are
  \<open>ms\<close> and whose members so far end at offset \<open>e\<close>.
\<close>

fun member_offset :: "(string \<times> ctype) list \<Rightarrow> string \<Rightarrow> nat \<Rightarrow> (nat \<times> ctype) option" where
  "member_offset [] name e = None"
| "member_offset ((n, t) # ms) name e =
     (let off = align_up e (alignof t) in
      if n = name then Some (off, t) else member_offset ms name (off + sizeof t))"

text \<open>
  A designator selects a member (\<open>.name\<close>) or an array element (\<open>[i]\<close>). \<open>subobject\<close>
  follows a path of designators from an object of type \<open>t\<close> and gives the byte offset and
  the type of what it reaches: every member of a union starts at offset 0, element \<open>i\<close> of
  an array at \<open>i\<close> times the element size. The result is \<open>None\<close> for a member that is not
  declared and for an index outside the array.
\<close>

datatype designator = Member string | Element nat

fun subobject :: "ctype \<Rightarrow> designator list \<Rightarrow> (nat \<times> ctype) option" where
  "subobject t [] = Some (0, t)"
| "subobject (CStruct ms) (Member name # p) =
     (case member_offset ms name 0 of
        None \<Rightarrow> None
      | Some (off, t) \<Rightarrow>
          (case subobject t p of
             None \<Rightarrow> None
           | Some (off', t') \<Rightarrow> Some (off + off', t')))"
| "subobject (CUnion ms) (Member name # p) =
     (case map_of ms name of
        None \<Rightarrow> None
      | Some t \<Rightarrow> subobject t p)"
| "subobject (CArray t n) (Element i # p) =
     (if i < n then
        (case subobject t p of
           None \<Rightarrow> None
         | Some (off, t') \<Rightarrow> Some (i * sizeof t + off, t'))
      else None)"
| "subobject t (d # p) = None"

text \<open>
  The storage of an object holding floats: the float stored at each byte offset. Every
  access below is to a whole \<open>float\<close> at the offset \<open>subobject\<close> computes, so two
  accesses touch the same float exactly when their offsets are equal. The type \<open>'f\<close> of
  float values is left open.
\<close>

type_synonym 'f storage = "nat \<Rightarrow> 'f"

definition read_float :: "ctype \<Rightarrow> designator list \<Rightarrow> 'f storage \<Rightarrow> 'f option" where
  "read_float t p obj =
     (case subobject t p of
        Some (off, CFloat) \<Rightarrow> Some (obj off)
      | _ \<Rightarrow> None)"

definition write_float :: "ctype \<Rightarrow> designator list \<Rightarrow> 'f \<Rightarrow> 'f storage \<Rightarrow> 'f storage option" where
  "write_float t p x obj =
     (case subobject t p of
        Some (off, CFloat) \<Rightarrow> Some (obj(off := x))
      | _ \<Rightarrow> None)"

subsection \<open>The quaternion\<close>

text \<open>
  \<open>k4a_quaternion_t\<close> (k4abttypes.h, lines 133 to 144): a union of the structure
  \<open>wxyz\<close> with the four floats \<open>w\<close>, \<open>x\<close>, \<open>y\<close>, \<open>z\<close> and of the array \<open>v\<close> of four floats.
\<close>

definition k4a_quaternion_t :: ctype where
  "k4a_quaternion_t =
     CUnion
       [(''wxyz'', CStruct [(''w'', CFloat), (''x'', CFloat), (''y'', CFloat), (''z'', CFloat)]),
        (''v'', CArray CFloat 4)]"

text \<open>The accesses \<open>q.wxyz.w\<close>, \<open>q.wxyz.x\<close>, \<open>q.wxyz.y\<close>, \<open>q.wxyz.z\<close> and \<open>q.v[i]\<close>.\<close>

definition get_wxyz :: "string \<Rightarrow> 'f storage \<Rightarrow> 'f option" where
  "get_wxyz name q = read_float k4a_quaternion_t [Member ''wxyz'', Member name] q"

definition set_wxyz :: "string \<Rightarrow> 'f \<Rightarrow> 'f storage \<Rightarrow> 'f storage option" where
  "set_wxyz name x q = write_float k4a_quaternion_t [Member ''wxyz'', Member name] x q"

definition get_v :: "nat \<Rightarrow> 'f storage \<Rightarrow> 'f option" where
  "get_v i q = read_float k4a_quaternion_t [Member ''v'', Element i] q"

definition set_v :: "nat \<Rightarrow> 'f \<Rightarrow> 'f storage \<Rightarrow> 'f storage option" where
  "set_v i x q = write_float k4a_quaternion_t [Member ''v'', Element i] x q"

text \<open>
  The assignments \<open>q.wxyz.w = a; q.wxyz.x = b; q.wxyz.y = c; q.wxyz.z = d\<close> one after the
  other, and the assignments \<open>q.v[0] = a; q.v[1] = b; q.v[2] = c; q.v[3] = d\<close>.
\<close>

definition assign_wxyz :: "'f \<Rightarrow> 'f \<Rightarrow> 'f \<Rightarrow> 'f \<Rightarrow> 'f storage \<Rightarrow> 'f storage option" where
  "assign_wxyz a b c d q =
     Option.bind (Option.bind (Option.bind (set_wxyz ''w'' a q) (set_wxyz ''x'' b))
       (set_wxyz ''y'' c)) (set_wxyz ''z'' d)"

definition assign_v :: "'f \<Rightarrow> 'f \<Rightarrow> 'f \<Rightarrow> 'f \<Rightarrow> 'f storage \<Rightarrow> 'f storage option" where
  "assign_v a b c d q =
     Option.bind (Option.bind (Option.bind (set_v 0 a q) (set_v 1 b)) (set_v 2 c)) (set_v 3 d)"

text \<open>Reading the whole array \<open>v\<close>, and reading the four named members in order.\<close>

definition read_v :: "'f storage \<Rightarrow> 'f option list" where
  "read_v q = map (\<lambda>i. get_v i q) [0, 1, 2, 3]"

definition read_wxyz :: "'f storage \<Rightarrow> 'f option list" where
  "read_wxyz q = map (\<lambda>name. get_wxyz name q) [''w'', ''x'', ''y'', ''z'']"

subsection \<open>Joint, skeleton and body\<close>

text \<open>
  \<open>struct _k4abt_joint_t\<close>: a position and an orientation. The type \<open>k4a_float3_t\<close> of
  the position is declared in k4a/k4atypes.h, which is not part of these sources; it is
  the type parameter \<open>'p\<close>. The orientation is the storage of a quaternion.
\<close>

record ('p, 'f) k4abt_joint_t =
  position :: 'p
  orientation :: "'f storage"

text \<open>
  The array type of \<open>k4abt_joint_t joints[K4ABT_JOINT_COUNT]\<close>: the sequences of as many
  elements as the value of the enumerator \<open>K4ABT_JOINT_COUNT\<close>.
\<close>

typedef 'a joints_array =
  "{js :: 'a list. Some (int (length js)) = k4abt_joint_id_t_value K4ABT_JOINT_COUNT}"
proof
  show "replicate 26 undefined
    \<in> {js :: 'a list. Some (int (length js)) = k4abt_joint_id_t_value K4ABT_JOINT_COUNT}"
    by (simp add: k4abt_joint_id_t_value_def k4abt_joint_id_t_decl_def)
qed

text \<open>\<open>struct _k4abt_skeleton_t\<close> has the one member \<open>joints\<close>.\<close>

record ('p, 'f) k4abt_skeleton_t =
  joints :: "('p, 'f) k4abt_joint_t joints_array"

text \<open>
  \<open>skeleton.joints[j]\<close> for a joint identifier \<open>j\<close>: the element at the value of \<open>j\<close>,
  and \<open>None\<close> when that value is not an index of the array.
\<close>

definition joint_at ::
    "('p, 'f) k4abt_skeleton_t \<Rightarrow> k4abt_joint_id_t \<Rightarrow> ('p, 'f) k4abt_joint_t option" where
  "joint_at s j =
     (case k4abt_joint_id_t_value j of
        None \<Rightarrow> None
      | Some i \<Rightarrow>
          if 0 \<le> i \<and> nat i < length (Rep_joints_array (joints s))
          then Some (Rep_joints_array (joints s) ! nat i)
          else None)"

text \<open>
  \<open>struct _k4abt_body_t\<close>: the \<open>uint32_t\<close> member \<open>id\<close> (here \<open>id_body\<close>) and the
  skeleton.
\<close>

record ('p, 'f) k4abt_body_t =
  id_body :: "32 word"
  skeleton :: "('p, 'f) k4abt_skeleton_t"

section \<open>Properties of the enumerations\<close>

lemma k4abt_joint_id_t_values:
  "enum_values 0 k4abt_joint_id_t_decl =
    [(K4ABT_JOINT_PELVIS, 0),
     (K4ABT_JOINT_SPINE_NAVAL, 1),
     (K4ABT_JOINT_SPINE_CHEST, 2),
     (K4ABT_JOINT_NECK, 3),
     (K4ABT_JOINT_CLAVICLE_LEFT, 4),
     (K4ABT_JOINT_SHOULDER_LEFT, 5),
     (K4ABT_JOINT_ELBOW_LEFT, 6),
     (K4ABT_JOINT_WRIST_LEFT, 7),
     (K4ABT_JOINT_CLAVICLE_RIGHT, 8),
     (K4ABT_JOINT_SHOULDER_RIGHT, 9),
     (K4ABT_JOINT_ELBOW_RIGHT, 10),
     (K4ABT_JOINT_WRIST_RIGHT, 11),
     (K4ABT_JOINT_HIP_LEFT, 12),
     (K4ABT_JOINT_KNEE_LEFT, 13),
     (K4ABT_JOINT_ANKLE_LEFT, 14),
     (K4ABT_JOINT_FOOT_LEFT, 15),
     (K4ABT_JOINT_HIP_RIGHT, 16),
     (K4ABT_JOINT_KNEE_RIGHT, 17),
     (K4ABT_JOINT_ANKLE_RIGHT, 18),
     (K4ABT_JOINT_FOOT_RIGHT, 19),
     (K4ABT_JOINT_HEAD, 20),
     (K4ABT_JOINT_NOSE, 21),
     (K4ABT_JOINT_EYE_LEFT, 22),
     (K4ABT_JOINT_EAR_LEFT, 23),
     (K4ABT_JOINT_EYE_RIGHT, 24),
     (K4ABT_JOINT_EAR_RIGHT, 25),
     (K4ABT_JOINT_COUNT, 26)]"
  by (simp add: k4abt_joint_id_t_decl_def)

lemma k4abt_joint_id_t_closed:
  "j \<in> fst ` set k4abt_joint_id_t_decl"
  by (cases j) (simp_all add: k4abt_joint_id_t_decl_def)

lemma k4abt_sensor_orientation_t_values:
  "enum_values 0 k4abt_sensor_orientation_t_decl =
    [(K4ABT_SENSOR_ORIENTATION_DEFAULT, 0),
     (K4ABT_SENSOR_ORIENTATION_CLOCKWISE90, 1),
     (K4ABT_SENSOR_ORIENTATION_COUNTERCLOCKWISE90, 2),
     (K4ABT_SENSOR_ORIENTATION_FLIP180, 3)]"
  by (simp add: k4abt_sensor_orientation_t_decl_def)

lemma k4abt_sensor_orientation_t_closed:
  "s \<in> fst ` set k4abt_sensor_orientation_t_decl"
  by (cases s) (simp_all add: k4abt_sensor_orientation_t_decl_def)

lemma k4abt_joint_id_t_distinct: "distinct (map fst k4abt_joint_id_t_decl)"
  by (simp add: k4abt_joint_id_t_decl_def)

lemma k4abt_sensor_orientation_t_distinct: "distinct (map fst k4abt_sensor_orientation_t_decl)"
  by (simp add: k4abt_sensor_orientation_t_decl_def)

text \<open>
  Claim C1. The enumeration \<open>k4abt_joint_id_t\<close> has exactly 26 named joints,
  \<open>K4ABT_JOINT_PELVIS\<close> through \<open>K4ABT_JOINT_EAR_RIGHT\<close>, whose values are 0 through 25 in
  the order of the declaration, followed by the sentinel \<open>K4ABT_JOINT_COUNT\<close> with the
  value 26. The enumerators are pairwise different and there is no further one.
\<close>

theorem k4abt_joint_id_t_ordinals:
  "enum_values 0 k4abt_joint_id_t_decl =
     [(K4ABT_JOINT_PELVIS, 0),
      (K4ABT_JOINT_SPINE_NAVAL, 1),
      (K4ABT_JOINT_SPINE_CHEST, 2),
      (K4ABT_JOINT_NECK, 3),
      (K4ABT_JOINT_CLAVICLE_LEFT, 4),
      (K4ABT_JOINT_SHOULDER_LEFT, 5),
      (K4ABT_JOINT_ELBOW_LEFT, 6),
      (K4ABT_JOINT_WRIST_LEFT, 7),
      (K4ABT_JOINT_CLAVICLE_RIGHT, 8),
      (K4ABT_JOINT_SHOULDER_RIGHT, 9),
      (K4ABT_JOINT_ELBOW_RIGHT, 10),
      (K4ABT_JOINT_WRIST_RIGHT, 11),
      (K4ABT_JOINT_HIP_LEFT, 12),
      (K4ABT_JOINT_KNEE_LEFT, 13),
      (K4ABT_JOINT_ANKLE_LEFT, 14),
      (K4ABT_JOINT_FOOT_LEFT, 15),
      (K4ABT_JOINT_HIP_RIGHT, 16),
      (K4ABT_JOINT_KNEE_RIGHT, 17),
      (K4ABT_JOINT_ANKLE_RIGHT, 18),
      (K4ABT_JOINT_FOOT_RIGHT, 19),
      (K4ABT_JOINT_HEAD, 20),
      (K4ABT_JOINT_NOSE, 21),
      (K4ABT_JOINT_EYE_LEFT, 22),
      (K4ABT_JOINT_EAR_LEFT, 23),
      (K4ABT_JOINT_EYE_RIGHT, 24),
      (K4ABT_JOINT_EAR_RIGHT, 25),
      (K4ABT_JOINT_COUNT, 26)]
   \<and> map snd (enum_values 0 k4abt_joint_id_t_decl) = [0 .. 26]
   \<and> length (butlast (enum_values 0 k4abt_joint_id_t_decl)) = 26
   \<and> last (enum_values 0 k4abt_joint_id_t_decl) = (K4ABT_JOINT_COUNT, 26)
   \<and> k4abt_joint_id_t_value K4ABT_JOINT_PELVIS = Some 0
   \<and> k4abt_joint_id_t_value K4ABT_JOINT_EAR_RIGHT = Some 25
   \<and> k4abt_joint_id_t_value K4ABT_JOINT_COUNT = Some 26
   \<and> distinct (map fst k4abt_joint_id_t_decl)
   \<and> (\<forall>j. j \<in> fst ` set k4abt_joint_id_t_decl)"
proof -
  have ords: "map snd (enum_values 0 k4abt_joint_id_t_decl) = [0 .. 26]"
    unfolding k4abt_joint_id_t_values by (simp add: upto_rec1)
  show ?thesis
    using k4abt_joint_id_t_distinct k4abt_joint_id_t_closed ords
    by (simp add: k4abt_joint_id_t_values k4abt_joint_id_t_value_def)
qed

text \<open>
  Claim C7. The enumeration \<open>k4abt_sensor_orientation_t\<close> has exactly the four values
  default, clockwise 90, counter-clockwise 90 and flip 180, with the values 0, 1, 2, 3 in
  that order; the enumerators are pairwise different and there is no further one.
\<close>

theorem k4abt_sensor_orientation_t_ordinals:
  "enum_values 0 k4abt_sensor_orientation_t_decl =
     [(K4ABT_SENSOR_ORIENTATION_DEFAULT, 0),
      (K4ABT_SENSOR_ORIENTATION_CLOCKWISE90, 1),
      (K4ABT_SENSOR_ORIENTATION_COUNTERCLOCKWISE90, 2),
      (K4ABT_SENSOR_ORIENTATION_FLIP180, 3)]
   \<and> length k4abt_sensor_orientation_t_decl = 4
   \<and> distinct (map fst k4abt_sensor_orientation_t_decl)
   \<and> (\<forall>s. s \<in> fst ` set k4abt_sensor_orientation_t_decl)"
  using k4abt_sensor_orientation_t_distinct k4abt_sensor_orientation_t_closed
  by (simp add: k4abt_sensor_orientation_t_values)
    (simp add: k4abt_sensor_orientation_t_decl_def)

text \<open>
  Claim C5. \<open>K4ABT_TRACKER_CONFIG_DEFAULT\<close> is a tracker configuration whose member
  \<open>sensor_orientation\<close> is \<open>K4ABT_SENSOR_ORIENTATION_DEFAULT\<close>, the enumerator with the
  value 0; a tracker configuration has no other member, so it is determined by that one.
\<close>

theorem K4ABT_TRACKER_CONFIG_DEFAULT_orientation:
  "sensor_orientation K4ABT_TRACKER_CONFIG_DEFAULT = K4ABT_SENSOR_ORIENTATION_DEFAULT
   \<and> k4abt_sensor_orientation_t_value K4ABT_SENSOR_ORIENTATION_DEFAULT = Some 0
   \<and> k4abt_sensor_orientation_t_value (sensor_orientation K4ABT_TRACKER_CONFIG_DEFAULT) = Some 0
   \<and> (\<forall>c :: k4abt_tracker_configuration_t. c = \<lparr>sensor_orientation = sensor_orientation c\<rparr>)"
  by (simp add: K4ABT_TRACKER_CONFIG_DEFAULT_def k4abt_sensor_orientation_t_value_def
      k4abt_sensor_orientation_t_values)

section \<open>Properties of the constants\<close>

lemma K4ABT_BODY_INDEX_MAP_BACKGROUND_value:
  "integer_constant K4ABT_BODY_INDEX_MAP_BACKGROUND = Some 255"
  by (simp add: integer_constant_def K4ABT_BODY_INDEX_MAP_BACKGROUND_def digit_value_def)

lemma K4ABT_INVALID_BODY_ID_value:
  "integer_constant K4ABT_INVALID_BODY_ID = Some 4294967295"
  by (simp add: integer_constant_def K4ABT_INVALID_BODY_ID_def digit_value_def)

lemma K4ABT_DEFAULT_TRACKER_SMOOTHING_FACTOR_value:
  "floating_constant K4ABT_DEFAULT_TRACKER_SMOOTHING_FACTOR = Some (1 / 2)"
  by (simp add: floating_constant_def K4ABT_DEFAULT_TRACKER_SMOOTHING_FACTOR_def digit_value_def)

lemma K4ABT_VERSION_numbers:
  "integer_constant K4ABT_VERSION_MAJOR = Some 0"
  "integer_constant K4ABT_VERSION_MINOR = Some 9"
  "integer_constant K4ABT_VERSION_PATCH = Some 2"
  by (simp_all add: integer_constant_def K4ABT_VERSION_MAJOR_def K4ABT_VERSION_MINOR_def
      K4ABT_VERSION_PATCH_def digit_value_def)

lemma K4ABT_VERSION_STR_value: "string_literal K4ABT_VERSION_STR = Some ''0.9.2''"
  by (simp add: string_literal_def K4ABT_VERSION_STR_def)

lemma version_core_0_9_2: "version_core 0 9 2 = ''0.9.2''"
  by (simp add: version_core_def)

text \<open>
  Claim C3. The constants have the values of their literals:
  \<open>K4ABT_BODY_INDEX_MAP_BACKGROUND\<close> is 255, \<open>K4ABT_INVALID_BODY_ID\<close> is the hexadecimal
  \<open>FFFFFFFF\<close>, that is 4294967295 and not 0, and \<open>K4ABT_DEFAULT_TRACKER_SMOOTHING_FACTOR\<close>
  is one half, which is the binary32 number with sign 0, exponent field 126 and fraction
  field 0, so the \<open>float\<close> constant holds it exactly.
\<close>

theorem k4abt_constants:
  "integer_constant K4ABT_BODY_INDEX_MAP_BACKGROUND = Some 255
   \<and> integer_constant K4ABT_INVALID_BODY_ID = Some 4294967295
   \<and> integer_constant K4ABT_INVALID_BODY_ID = Some (16 ^ 8 - 1)
   \<and> integer_constant K4ABT_INVALID_BODY_ID \<noteq> Some 0
   \<and> floating_constant K4ABT_DEFAULT_TRACKER_SMOOTHING_FACTOR = Some (1 / 2)
   \<and> binary32_value False 126 0 = floating_constant K4ABT_DEFAULT_TRACKER_SMOOTHING_FACTOR"
  by (simp add: K4ABT_BODY_INDEX_MAP_BACKGROUND_value K4ABT_INVALID_BODY_ID_value
      K4ABT_DEFAULT_TRACKER_SMOOTHING_FACTOR_value binary32_value_def)

text \<open>
  Claim C6. \<open>K4ABT_VERSION_STR\<close> is the string \<open>0.9.2\<close>; the version numbers are
  major 0, minor 9 and patch 2; and the string is the dot-joined decimal rendering of
  these three numbers.
\<close>

theorem K4ABT_VERSION_STR_consistent:
  "string_literal K4ABT_VERSION_STR = Some ''0.9.2''
   \<and> integer_constant K4ABT_VERSION_MAJOR = Some 0
   \<and> integer_constant K4ABT_VERSION_MINOR = Some 9
   \<and> integer_constant K4ABT_VERSION_PATCH = Some 2
   \<and> (\<exists>major minor patch.
        integer_constant K4ABT_VERSION_MAJOR = Some major
        \<and> integer_constant K4ABT_VERSION_MINOR = Some minor
        \<and> integer_constant K4ABT_VERSION_PATCH = Some patch
        \<and> string_literal K4ABT_VERSION_STR = Some (version_core major minor patch))"
proof -
  have rendered: "string_literal K4ABT_VERSION_STR = Some (version_core 0 9 2)"
    unfolding version_core_0_9_2 by (rule K4ABT_VERSION_STR_value)
  have "\<exists>major minor patch.
        integer_constant K4ABT_VERSION_MAJOR = Some major
        \<and> integer_constant K4ABT_VERSION_MINOR = Some minor
        \<and> integer_constant K4ABT_VERSION_PATCH = Some patch
        \<and> string_literal K4ABT_VERSION_STR = Some (version_core major minor patch)"
    using K4ABT_VERSION_numbers rendered by blast
  then show ?thesis
    using K4ABT_VERSION_numbers K4ABT_VERSION_STR_value by blast
qed

text \<open>
  Claim C8. \<open>K4ABT_VERSION_PRERELEASE\<close> and \<open>K4ABT_VERSION_BUILD_METADATA\<close> are the empty
  string, so the full version built from the five components has no prerelease and no
  build-metadata suffix: it is \<open>0.9.2\<close>, the value of \<open>K4ABT_VERSION_STR\<close>.
\<close>

theorem K4ABT_VERSION_no_suffix:
  "string_literal K4ABT_VERSION_PRERELEASE = Some []
   \<and> string_literal K4ABT_VERSION_BUILD_METADATA = Some []
   \<and> (\<exists>major minor patch prerelease build.
        integer_constant K4ABT_VERSION_MAJOR = Some major
        \<and> integer_constant K4ABT_VERSION_MINOR = Some minor
        \<and> integer_constant K4ABT_VERSION_PATCH = Some patch
        \<and> string_literal K4ABT_VERSION_PRERELEASE = Some prerelease
        \<and> string_literal K4ABT_VERSION_BUILD_METADATA = Some build
        \<and> version_full major minor patch prerelease build = ''0.9.2''
        \<and> string_literal K4ABT_VERSION_STR = Some (version_full major minor patch prerelease build))"
proof -
  have pre: "string_literal K4ABT_VERSION_PRERELEASE = Some []"
    by (simp add: string_literal_def K4ABT_VERSION_PRERELEASE_def)
  have build: "string_literal K4ABT_VERSION_BUILD_METADATA = Some []"
    by (simp add: string_literal_def K4ABT_VERSION_BUILD_METADATA_def)
  have full: "version_full 0 9 2 [] [] = ''0.9.2''"
    by (simp add: version_full_def version_core_0_9_2)
  show ?thesis
    by (simp add: pre build full K4ABT_VERSION_numbers K4ABT_VERSION_STR_value)
qed

text \<open>
  Claim C10. The value of \<open>K4ABT_INVALID_BODY_ID\<close> is \<open>2 ^ 32 - 1\<close>, the largest value of
  the 32-bit unsigned member \<open>id\<close> of a body: no body has a larger id, and storing the
  value in the member gives it back unchanged. It is different from 0 and from
  \<open>K4ABT_BODY_INDEX_MAP_BACKGROUND\<close>, which is 255.
\<close>

theorem K4ABT_INVALID_BODY_ID_max:
  "\<exists>n. integer_constant K4ABT_INVALID_BODY_ID = Some n
       \<and> n = 2 ^ 32 - 1
       \<and> n = unat (- 1 :: 32 word)
       \<and> (\<forall>b :: ('p, 'f) k4abt_body_t. unat (id_body b) \<le> n)
       \<and> (\<forall>b :: ('p, 'f) k4abt_body_t. unat (id_body (b\<lparr>id_body := of_nat n\<rparr>)) = n)
       \<and> n \<noteq> 0
       \<and> integer_constant K4ABT_BODY_INDEX_MAP_BACKGROUND = Some 255
       \<and> Some n \<noteq> integer_constant K4ABT_BODY_INDEX_MAP_BACKGROUND"
proof -
  have bound: "unat w \<le> 4294967295" for w :: "32 word"
    using unsigned_less [of w, where ?'a = nat] by simp
  have top: "unat (- 1 :: 32 word) = 4294967295"
    by (simp add: unsigned_minus_1_eq_mask mask_eq_exp_minus_1)
  show ?thesis
    by (simp add: K4ABT_INVALID_BODY_ID_value K4ABT_BODY_INDEX_MAP_BACKGROUND_value bound top)
qed

section \<open>Properties of the structures\<close>

lemma subobject_wxyz:
  "subobject k4a_quaternion_t [Member ''wxyz'', Member ''w''] = Some (0, CFloat)"
  "subobject k4a_quaternion_t [Member ''wxyz'', Member ''x''] = Some (4, CFloat)"
  "subobject k4a_quaternion_t [Member ''wxyz'', Member ''y''] = Some (8, CFloat)"
  "subobject k4a_quaternion_t [Member ''wxyz'', Member ''z''] = Some (12, CFloat)"
  by (simp_all add: k4a_quaternion_t_def align_up_def)

lemma subobject_v:
  "subobject k4a_quaternion_t [Member ''v'', Element i] =
     (if i < 4 then Some (4 * i, CFloat) else None)"
  by (simp add: k4a_quaternion_t_def)

lemma sizeof_k4a_quaternion_t: "sizeof k4a_quaternion_t = 16"
  by (simp add: k4a_quaternion_t_def align_up_def)

lemma get_wxyz_simps:
  "get_wxyz ''w'' q = Some (q 0)"
  "get_wxyz ''x'' q = Some (q 4)"
  "get_wxyz ''y'' q = Some (q 8)"
  "get_wxyz ''z'' q = Some (q 12)"
  by (simp_all add: get_wxyz_def read_float_def subobject_wxyz)

lemma get_v_eq: "get_v i q = (if i < 4 then Some (q (4 * i)) else None)"
  by (simp add: get_v_def read_float_def subobject_v)

lemma set_wxyz_simps:
  "set_wxyz ''w'' a q = Some (q(0 := a))"
  "set_wxyz ''x'' a q = Some (q(4 := a))"
  "set_wxyz ''y'' a q = Some (q(8 := a))"
  "set_wxyz ''z'' a q = Some (q(12 := a))"
  by (simp_all add: set_wxyz_def write_float_def subobject_wxyz)

lemma set_v_eq: "set_v i a q = (if i < 4 then Some (q(4 * i := a)) else None)"
  by (simp add: set_v_def write_float_def subobject_v)

lemma read_v_eq: "read_v q = [Some (q 0), Some (q 4), Some (q 8), Some (q 12)]"
  by (simp add: read_v_def get_v_eq)

lemma read_wxyz_eq: "read_wxyz q = [Some (q 0), Some (q 4), Some (q 8), Some (q 12)]"
  by (simp add: read_wxyz_def get_wxyz_simps)

lemma assign_wxyz_eq:
  "assign_wxyz a b c d q = Some (q(0 := a, 4 := b, 8 := c, 12 := d))"
  by (simp add: assign_wxyz_def set_wxyz_simps)

lemma assign_v_eq:
  "assign_v a b c d q = Some (q(0 := a, 4 := b, 8 := c, 12 := d))"
  by (simp add: assign_v_def set_v_eq)

text \<open>
  Claim C2. In \<open>k4a_quaternion_t\<close> the array view and the named-member view are the same
  four floats: \<open>v[0]\<close>, \<open>v[1]\<close>, \<open>v[2]\<close>, \<open>v[3]\<close> are subobjects of type \<open>float\<close> at the
  same offsets 0, 4, 8, 12 as \<open>w\<close>, \<open>x\<close>, \<open>y\<close>, \<open>z\<close>, and together they fill the union.
  Hence, for every content of the storage, each \<open>v[i]\<close> reads the same value as its named
  member; after assigning \<open>a\<close>, \<open>b\<close>, \<open>c\<close>, \<open>d\<close> to \<open>w\<close>, \<open>x\<close>, \<open>y\<close>, \<open>z\<close> the array reads
  \<open>[a, b, c, d]\<close> (for the values 1, 2, 3, 4 it reads \<open>[1, 2, 3, 4]\<close>); and a value written
  through \<open>v\<close> is read back through the named members.
\<close>

theorem k4a_quaternion_t_views_alias:
  fixes q :: "'f storage" and r :: "real storage" and a b c d :: 'f
  shows
  "subobject k4a_quaternion_t [Member ''v'', Element 0]
     = subobject k4a_quaternion_t [Member ''wxyz'', Member ''w'']
   \<and> subobject k4a_quaternion_t [Member ''v'', Element 1]
     = subobject k4a_quaternion_t [Member ''wxyz'', Member ''x'']
   \<and> subobject k4a_quaternion_t [Member ''v'', Element 2]
     = subobject k4a_quaternion_t [Member ''wxyz'', Member ''y'']
   \<and> subobject k4a_quaternion_t [Member ''v'', Element 3]
     = subobject k4a_quaternion_t [Member ''wxyz'', Member ''z'']
   \<and> map (\<lambda>i. subobject k4a_quaternion_t [Member ''v'', Element i]) [0, 1, 2, 3]
     = [Some (0, CFloat), Some (4, CFloat), Some (8, CFloat), Some (12, CFloat)]
   \<and> sizeof k4a_quaternion_t = 4 * sizeof CFloat
   \<and> get_v 0 q = get_wxyz ''w'' q
   \<and> get_v 1 q = get_wxyz ''x'' q
   \<and> get_v 2 q = get_wxyz ''y'' q
   \<and> get_v 3 q = get_wxyz ''z'' q
   \<and> read_v q = read_wxyz q
   \<and> map_option read_v (assign_wxyz a b c d q) = Some [Some a, Some b, Some c, Some d]
   \<and> map_option read_wxyz (assign_v a b c d q) = Some [Some a, Some b, Some c, Some d]
   \<and> Option.bind (set_wxyz ''w'' a q) (get_v 0) = Some a
   \<and> Option.bind (set_wxyz ''x'' a q) (get_v 1) = Some a
   \<and> Option.bind (set_wxyz ''y'' a q) (get_v 2) = Some a
   \<and> Option.bind (set_wxyz ''z'' a q) (get_v 3) = Some a
   \<and> Option.bind (set_v 0 a q) (get_wxyz ''w'') = Some a
   \<and> Option.bind (set_v 1 a q) (get_wxyz ''x'') = Some a
   \<and> Option.bind (set_v 2 a q) (get_wxyz ''y'') = Some a
   \<and> Option.bind (set_v 3 a q) (get_wxyz ''z'') = Some a
   \<and> map_option read_v (assign_wxyz 1 2 3 4 r) = Some [Some 1, Some 2, Some 3, Some 4]"
  by (simp add: subobject_wxyz subobject_v sizeof_k4a_quaternion_t get_wxyz_simps get_v_eq
      set_wxyz_simps set_v_eq read_v_eq read_wxyz_eq assign_wxyz_eq assign_v_eq)

lemma K4ABT_JOINT_COUNT_value: "k4abt_joint_id_t_value K4ABT_JOINT_COUNT = Some 26"
  by (simp add: k4abt_joint_id_t_value_def k4abt_joint_id_t_values)

lemma length_joints: "length (Rep_joints_array js) = 26"
  using Rep_joints_array [of js] by (simp add: K4ABT_JOINT_COUNT_value)

lemma k4abt_joint_id_t_value_range:
  "j \<noteq> K4ABT_JOINT_COUNT \<Longrightarrow> \<exists>i. k4abt_joint_id_t_value j = Some i \<and> 0 \<le> i \<and> i \<le> 25"
  by (cases j) (simp_all add: k4abt_joint_id_t_value_def k4abt_joint_id_t_values)

text \<open>
  Claim C4. The member \<open>joints\<close> of every skeleton is an array of exactly 26 joints, as
  many as the value of \<open>K4ABT_JOINT_COUNT\<close>. Every joint identifier other than the
  sentinel has a value from 0 to 25 that is an index of the array, so \<open>joints[j]\<close> is one
  of its elements, while the value of the sentinel is not an index. A skeleton has no
  other member: it is determined by \<open>joints\<close>.
\<close>

theorem k4abt_skeleton_t_joints:
  fixes s :: "('p, 'f) k4abt_skeleton_t"
  shows
  "length (Rep_joints_array (joints s)) = 26
   \<and> Some (int (length (Rep_joints_array (joints s)))) = k4abt_joint_id_t_value K4ABT_JOINT_COUNT
   \<and> (\<forall>j. j \<noteq> K4ABT_JOINT_COUNT \<longrightarrow>
        (\<exists>i. k4abt_joint_id_t_value j = Some (int i) \<and> i \<le> 25
           \<and> i < length (Rep_joints_array (joints s))
           \<and> joint_at s j = Some (Rep_joints_array (joints s) ! i)))
   \<and> joint_at s K4ABT_JOINT_COUNT = None
   \<and> s = \<lparr>joints = joints s\<rparr>"
proof -
  have len: "length (Rep_joints_array (joints s)) = 26"
    by (rule length_joints)
  have valid: "\<exists>i. k4abt_joint_id_t_value j = Some (int i) \<and> i \<le> 25
           \<and> i < length (Rep_joints_array (joints s))
           \<and> joint_at s j = Some (Rep_joints_array (joints s) ! i)"
    if "j \<noteq> K4ABT_JOINT_COUNT" for j
  proof -
    from k4abt_joint_id_t_value_range [OF that]
    obtain i where i: "k4abt_joint_id_t_value j = Some i" "0 \<le> i" "i \<le> 25" by blast
    then have "k4abt_joint_id_t_value j = Some (int (nat i)) \<and> nat i \<le> 25
       \<and> nat i < length (Rep_joints_array (joints s))
       \<and> joint_at s j = Some (Rep_joints_array (joints s) ! nat i)"
      by (simp add: joint_at_def len)
    then show ?thesis by blast
  qed
  have sentinel: "joint_at s K4ABT_JOINT_COUNT = None"
    by (simp add: joint_at_def K4ABT_JOINT_COUNT_value len)
  show ?thesis
    using len valid sentinel by (simp add: K4ABT_JOINT_COUNT_value)
qed

theorem k4abt_skeleton_t_joints_witness:
  "K4ABT_JOINT_HEAD \<noteq> K4ABT_JOINT_COUNT
   \<and> (\<exists>i. k4abt_joint_id_t_value K4ABT_JOINT_HEAD = Some (int i) \<and> i \<le> 25
        \<and> i < length (Rep_joints_array (joints (\<lparr>joints = Abs_joints_array
               (replicate 26 \<lparr>position = (0 :: nat), orientation = (\<lambda>off. 0 :: real)\<rparr>)\<rparr>)))
        \<and> joint_at \<lparr>joints = Abs_joints_array
               (replicate 26 \<lparr>position = (0 :: nat), orientation = (\<lambda>off. 0 :: real)\<rparr>)\<rparr>
              K4ABT_JOINT_HEAD
            = Some \<lparr>position = (0 :: nat), orientation = (\<lambda>off. 0 :: real)\<rparr>)"
proof -
  let ?j0 = "\<lparr>position = (0 :: nat), orientation = (\<lambda>off. 0 :: real)\<rparr>"
  let ?s = "\<lparr>joints = Abs_joints_array (replicate 26 ?j0)\<rparr>"
  have rep: "Rep_joints_array (Abs_joints_array (replicate 26 ?j0)) = replicate 26 ?j0"
    by (rule Abs_joints_array_inverse) (simp add: K4ABT_JOINT_COUNT_value)
  have ne: "K4ABT_JOINT_HEAD \<noteq> K4ABT_JOINT_COUNT" by simp
  from k4abt_skeleton_t_joints [of ?s] ne
  obtain i where i: "k4abt_joint_id_t_value K4ABT_JOINT_HEAD = Some (int i)" "i \<le> 25"
      "i < length (Rep_joints_array (joints ?s))"
      "joint_at ?s K4ABT_JOINT_HEAD = Some (Rep_joints_array (joints ?s) ! i)"
    by blast
  from i(2) i(4) have "joint_at ?s K4ABT_JOINT_HEAD = Some ?j0"
    by (simp add: rep)
  with ne i show ?thesis by blast
qed

end
